theory Spec2Isabelle
  imports Main
begin

section \<open>Python values\<close>

text \<open>
  The scrapers handle decoded JSON: the raw records of the dataset, the configuration
  files and the bodies of the GitHub API are values of \<open>json.load\<close>. A value is
  \<open>None\<close>, a \<open>bool\<close>, an unbounded \<open>int\<close>, a \<open>str\<close>, a \<open>list\<close> or a \<open>dict\<close> with
  string keys; a dictionary keeps its insertion order, so it is an association list.
  A \<open>str\<close> is a list of code points below 256. Floating-point numbers are left out.
\<close>

datatype pyval =
    PNone
  | PBool bool
  | PInt int
  | PStr string
  | PList "pyval list"
  | PDict "(string \<times> pyval) list"

type_synonym pydict = "(string \<times> pyval) list"

text \<open>
  An exception is its class and the text \<open>str(e)\<close>. \<open>RequestException\<close> stands for
  \<open>requests.exceptions.RequestException\<close> and all its subclasses (\<open>HTTPError\<close>,
  \<open>ConnectionError\<close>, \<open>Timeout\<close>, the \<open>JSONDecodeError\<close> of \<open>requests\<close>), which is all
  that the handler of \<open>fetch_profiles\<close> tells apart. The texts of the exceptions that
  the interpreter raises are those of CPython 3.11.
\<close>

datatype exn_class =
    FileNotFoundError
  | JSONDecodeError
  | KeyError
  | IndexError
  | TypeError
  | AttributeError
  | UnboundLocalError
  | ValueError
  | ApifyApiError
  | RequestException
  | OtherException

datatype py_error = Exn exn_class string

fun exn_cls :: "py_error \<Rightarrow> exn_class" where
  "exn_cls (Exn c m) = c"

fun exn_str :: "py_error \<Rightarrow> string" where
  "exn_str (Exn c m) = m"

subsection \<open>Characters\<close>

definition squote :: char where "squote = CHR 0x27"
definition dquote :: char where "dquote = CHR 0x22"
definition bslash :: char where "bslash = CHR 0x5C"
definition py_tab :: char where "py_tab = CHR 0x09"
definition py_lf :: char where "py_lf = CHR 0x0A"
definition py_cr :: char where "py_cr = CHR 0x0D"

definition code_point :: "char \<Rightarrow> nat" where
  "code_point c = of_char c"

definition digit_char :: "nat \<Rightarrow> char" where
  "digit_char n = ''0123456789abcdef'' ! (n mod 16)"

definition hex2 :: "nat \<Rightarrow> string" where
  "hex2 n = [digit_char (n div 16), digit_char (n mod 16)]"

subsection \<open>\<open>str()\<close>, \<open>repr()\<close> and \<open>format()\<close>\<close>

fun nat_dec :: "nat \<Rightarrow> string" where
  "nat_dec n = (if n < 10 then [digit_char n] else nat_dec (n div 10) @ [digit_char (n mod 10)])"

declare nat_dec.simps [simp del]

definition int_dec :: "int \<Rightarrow> string" where
  "int_dec i = (if i < 0 then CHR ''-'' # nat_dec (nat (- i)) else nat_dec (nat i))"

text \<open>\<open>str.isprintable\<close> on the code points below 256.\<close>

definition py_printable :: "char \<Rightarrow> bool" where
  "py_printable c =
     (let n = code_point c in (32 \<le> n \<and> n < 127) \<or> (161 \<le> n \<and> n \<noteq> 173))"

text \<open>One character of \<open>repr(s)\<close>, inside the quote \<open>q\<close>.\<close>

definition repr_char :: "char \<Rightarrow> char \<Rightarrow> string" where
  "repr_char q c =
     (if c = q \<or> c = bslash then [bslash, c]
      else if c = py_tab then [bslash, CHR ''t'']
      else if c = py_lf then [bslash, CHR ''n'']
      else if c = py_cr then [bslash, CHR ''r'']
      else if py_printable c then [c]
      else [bslash, CHR ''x''] @ hex2 (code_point c))"

text \<open>
  \<open>repr\<close> of a \<open>str\<close>: single quotes, unless the string has a single quote and no double
  quote.
\<close>

definition repr_str :: "string \<Rightarrow> string" where
  "repr_str s =
     (let q = (if squote \<in> set s \<and> dquote \<notin> set s then dquote else squote)
      in [q] @ concat (map (repr_char q) s) @ [q])"

fun join_with :: "string \<Rightarrow> string list \<Rightarrow> string" where
  "join_with sep [] = []"
| "join_with sep [x] = x"
| "join_with sep (x # y # ys) = x @ sep @ join_with sep (y # ys)"

fun py_repr :: "pyval \<Rightarrow> string"
  and py_repr_list :: "pyval list \<Rightarrow> string list"
  and py_repr_items :: "(string \<times> pyval) list \<Rightarrow> string list" where
  "py_repr PNone = ''None''"
| "py_repr (PBool b) = (if b then ''True'' else ''False'')"
| "py_repr (PInt i) = int_dec i"
| "py_repr (PStr s) = repr_str s"
| "py_repr (PList xs) = ''['' @ join_with '', '' (py_repr_list xs) @ '']''"
| "py_repr (PDict kvs) = ''{'' @ join_with '', '' (py_repr_items kvs) @ ''}''"
| "py_repr_list [] = []"
| "py_repr_list (x # xs) = py_repr x # py_repr_list xs"
| "py_repr_items [] = []"
| "py_repr_items (kv # kvs) =
     (repr_str (fst kv) @ '': '' @ py_repr (snd kv)) # py_repr_items kvs"

text \<open>\<open>str(v)\<close>, which is also \<open>format(v, '''')\<close>, the conversion of an f-string field.\<close>

definition py_str :: "pyval \<Rightarrow> string" where
  "py_str v = (case v of PStr s \<Rightarrow> s | _ \<Rightarrow> py_repr v)"

text \<open>\<open>str.strip()\<close>: the whitespace of \<open>str.isspace\<close> below 256.\<close>

definition py_isspace :: "char \<Rightarrow> bool" where
  "py_isspace c =
     (let n = code_point c
      in (9 \<le> n \<and> n \<le> 13) \<or> (28 \<le> n \<and> n \<le> 32) \<or> n = 133 \<or> n = 160)"

definition py_strip :: "string \<Rightarrow> string" where
  "py_strip s = rev (dropWhile py_isspace (rev (dropWhile py_isspace s)))"

subsection \<open>Truth value, subscription, \<open>dict.get\<close>\<close>

definition py_truthy :: "pyval \<Rightarrow> bool" where
  "py_truthy v =
     (case v of
        PNone \<Rightarrow> False
      | PBool b \<Rightarrow> b
      | PInt i \<Rightarrow> i \<noteq> 0
      | PStr s \<Rightarrow> s \<noteq> []
      | PList xs \<Rightarrow> xs \<noteq> []
      | PDict kvs \<Rightarrow> kvs \<noteq> [])"

definition type_name :: "pyval \<Rightarrow> string" where
  "type_name v =
     (case v of
        PNone \<Rightarrow> ''NoneType''
      | PBool b \<Rightarrow> ''bool''
      | PInt i \<Rightarrow> ''int''
      | PStr s \<Rightarrow> ''str''
      | PList xs \<Rightarrow> ''list''
      | PDict kvs \<Rightarrow> ''dict'')"

definition not_subscriptable :: "pyval \<Rightarrow> py_error" where
  "not_subscriptable v =
     Exn TypeError ([squote] @ type_name v @ [squote] @ '' object is not subscriptable'')"

definition no_attribute :: "pyval \<Rightarrow> string \<Rightarrow> py_error" where
  "no_attribute v a =
     Exn AttributeError
       ([squote] @ type_name v @ [squote] @ '' object has no attribute '' @ [squote] @ a @ [squote])"

text \<open>\<open>v[k]\<close> for a string \<open>k\<close>.\<close>

definition getitem_key :: "pyval \<Rightarrow> string \<Rightarrow> py_error + pyval" where
  "getitem_key v k =
     (case v of
        PDict kvs \<Rightarrow>
          (case map_of kvs k of
             Some x \<Rightarrow> Inr x
           | None \<Rightarrow> Inl (Exn KeyError (repr_str k)))
      | PList xs \<Rightarrow> Inl (Exn TypeError ''list indices must be integers or slices, not str'')
      | PStr s \<Rightarrow> Inl (Exn TypeError (''string indices must be integers, not '' @ [squote] @ ''str'' @ [squote]))
      | _ \<Rightarrow> Inl (not_subscriptable v))"

text \<open>\<open>v[0]\<close>.\<close>

definition getitem_0 :: "pyval \<Rightarrow> py_error + pyval" where
  "getitem_0 v =
     (case v of
        PList xs \<Rightarrow>
          (case xs of
             [] \<Rightarrow> Inl (Exn IndexError ''list index out of range'')
           | x # _ \<Rightarrow> Inr x)
      | PStr s \<Rightarrow>
          (case s of
             [] \<Rightarrow> Inl (Exn IndexError ''string index out of range'')
           | c # _ \<Rightarrow> Inr (PStr [c]))
      | PDict kvs \<Rightarrow> Inl (Exn KeyError ''0'')
      | _ \<Rightarrow> Inl (not_subscriptable v))"

text \<open>\<open>d.get(k, default)\<close> on a dictionary.\<close>

definition dict_get :: "pydict \<Rightarrow> string \<Rightarrow> pyval \<Rightarrow> pyval" where
  "dict_get d k dflt = (case map_of d k of Some x \<Rightarrow> x | None \<Rightarrow> dflt)"

text \<open>\<open>v.get(k, default)\<close> on any value: only a \<open>dict\<close> has the method.\<close>

definition py_get :: "pyval \<Rightarrow> string \<Rightarrow> pyval \<Rightarrow> py_error + pyval" where
  "py_get v k dflt =
     (case v of
        PDict d \<Rightarrow> Inr (dict_get d k dflt)
      | _ \<Rightarrow> Inl (no_attribute v ''get''))"

section \<open>models.py\<close>

subsection \<open>\<open>LinkedInProfile\<close>\<close>

text \<open>
  The dataclass declares \<open>str\<close> and \<open>int\<close> fields, and Python does not enforce the
  annotations: a field holds whatever \<open>from_api_response\<close> stores in it.
\<close>

record LinkedInProfile =
  name :: pyval
  position :: pyval
  company :: pyval
  location :: pyval
  connections :: pyval
  education :: pyval

text \<open>
  \<open>LinkedInProfile._get_position\<close>. The guard \<open>"positions" in profile and
  profile["positions"]\<close> holds when the key is present and its value is true.
\<close>

definition get_position :: "pydict \<Rightarrow> py_error + pyval" where
  "get_position profile =
     (if (case map_of profile ''positions'' of None \<Rightarrow> False | Some ps \<Rightarrow> py_truthy ps) then
        (case getitem_key (PDict profile) ''positions'' of
           Inl e \<Rightarrow> Inl e
         | Inr ps \<Rightarrow>
             (case getitem_0 ps of
                Inl e \<Rightarrow> Inl e
              | Inr p \<Rightarrow> py_get p ''title'' (PStr '''')))
      else Inr (dict_get profile ''occupation'' (PStr '''')))"

text \<open>\<open>LinkedInProfile._get_company\<close>\<close>

definition get_company :: "pydict \<Rightarrow> py_error + pyval" where
  "get_company profile =
     (if (case map_of profile ''positions'' of None \<Rightarrow> False | Some ps \<Rightarrow> py_truthy ps) then
        (case getitem_key (PDict profile) ''positions'' of
           Inl e \<Rightarrow> Inl e
         | Inr ps \<Rightarrow>
             (case getitem_0 ps of
                Inl e \<Rightarrow> Inl e
              | Inr p \<Rightarrow> py_get p ''companyName'' (PStr '''')))
      else Inr (PStr ''''))"

text \<open>\<open>LinkedInProfile._get_education\<close>\<close>

definition get_education :: "pydict \<Rightarrow> py_error + pyval" where
  "get_education profile =
     (if (case map_of profile ''educations'' of None \<Rightarrow> False | Some es \<Rightarrow> py_truthy es) then
        (case getitem_key (PDict profile) ''educations'' of
           Inl e \<Rightarrow> Inl e
         | Inr es \<Rightarrow>
             (case getitem_0 es of
                Inl e \<Rightarrow> Inl e
              | Inr ed \<Rightarrow> py_get ed ''schoolName'' (PStr '''')))
      else Inr (PStr ''''))"

text \<open>
  \<open>LinkedInProfile.from_api_response\<close>. The keyword arguments are evaluated in the order
  written, so the first extractor that raises decides the exception. A record that is
  not a \<open>dict\<close> has no \<open>get\<close>: the first argument raises \<open>AttributeError\<close>.
\<close>

definition from_api_response :: "pyval \<Rightarrow> py_error + LinkedInProfile" where
  "from_api_response raw =
     (case raw of
        PDict profile \<Rightarrow>
          (let nm = PStr (py_strip (py_str (dict_get profile ''firstName'' (PStr ''''))
                            @ '' '' @ py_str (dict_get profile ''lastName'' (PStr ''''))))
           in case get_position profile of
                Inl e \<Rightarrow> Inl e
              | Inr pos \<Rightarrow>
                  (case get_company profile of
                     Inl e \<Rightarrow> Inl e
                   | Inr co \<Rightarrow>
                       (let loc = dict_get profile ''geoLocationName'' (PStr '''');
                            conn = dict_get profile ''connectionsCount'' (PInt 0)
                        in case get_education profile of
                             Inl e \<Rightarrow> Inl e
                           | Inr edu \<Rightarrow>
                               Inr \<lparr>name = nm, position = pos, company = co,
                                    location = loc, connections = conn, education = edu\<rparr>)))
      | _ \<Rightarrow> Inl (no_attribute raw ''get''))"

subsection \<open>\<open>GitHubProfile\<close>\<close>

record GitHubProfile =
  username :: pyval
  full_name :: pyval
  bio :: pyval
  public_repos :: pyval
  followers :: pyval

section \<open>The outside world\<close>

text \<open>
  What the run does to the outside is a trace of events, in the order of the calls:
  log records, lines printed, and the requests sent to the scraping platform and to the
  GitHub API.
\<close>

datatype event =
    LogError string
  | LogInfo string
  | Print string
  | ActorCall pyval pyval
  | PageRead pyval int int
  | HttpGet string

text \<open>
  A \<open>requests.Response\<close>: the status line, the final URL, and what \<open>response.json()\<close>
  gives (the decoded body, or the exception it raises).
\<close>

record response =
  status_code :: int
  reason :: string
  url :: string
  json_body :: "py_error + pyval"

text \<open>
  The external collaborators, as the answers they give. \<open>load_json path\<close> is
  \<open>json.load(open(path))\<close>; \<open>call_actor name run_input\<close> is
  \<open>ApifyClient.actor(name).call(run_input=...)\<close>; \<open>list_items\<close> is one ranged read of a
  dataset (\<open>DatasetClient.list_items(offset, limit).items\<close>) and \<open>requests_get\<close> one
  \<open>requests.get\<close>. The last two are given the trace so far, so that the answer to a
  request may depend on everything that happened before it.
\<close>

record env =
  load_json :: "string \<Rightarrow> py_error + pyval"
  call_actor :: "pyval \<Rightarrow> pyval \<Rightarrow> py_error + pyval"
  list_items :: "event list \<Rightarrow> pyval \<Rightarrow> int \<Rightarrow> int \<Rightarrow> py_error + pyval list"
  requests_get :: "event list \<Rightarrow> string \<Rightarrow> py_error + response"

section \<open>helper.py\<close>

text \<open>\<open>d[k] = v\<close> on a dictionary: a present key keeps its place, a new one goes last.\<close>

fun dict_set :: "pydict \<Rightarrow> string \<Rightarrow> pyval \<Rightarrow> pydict" where
  "dict_set [] k v = [(k, v)]"
| "dict_set (kv # kvs) k v = (if fst kv = k then (k, v) # kvs else kv # dict_set kvs k v)"

text \<open>\<open>target[k] = v\<close> for a string \<open>k\<close>, on any value.\<close>

definition setitem_key :: "pyval \<Rightarrow> string \<Rightarrow> pyval \<Rightarrow> py_error + pyval" where
  "setitem_key target k v =
     (case target of
        PDict d \<Rightarrow> Inr (PDict (dict_set d k v))
      | PList xs \<Rightarrow> Inl (Exn TypeError ''list indices must be integers or slices, not str'')
      | _ \<Rightarrow>
          Inl (Exn TypeError
                 ([squote] @ type_name target @ [squote]
                  @ '' object does not support item assignment'')))"

text \<open>\<open>get_input_cookie\<close>\<close>

definition get_input_cookie :: "env \<Rightarrow> string \<Rightarrow> py_error + pyval" where
  "get_input_cookie E filename =
     (case load_json E filename of
        Inl e \<Rightarrow> Inl e
      | Inr actor_input \<Rightarrow> getitem_key actor_input ''cookie'')"

text \<open>
  \<open>get_actor_config\<close>. In \<open>config["actor_input"]["cookie"] = get_input_cookie(...)\<close>
  Python evaluates the right-hand side first, then \<open>config["actor_input"]\<close>, then
  stores. The inner dictionary is updated in place, so \<open>config\<close> sees the new cookie.
\<close>

definition get_actor_config :: "env \<Rightarrow> string \<Rightarrow> py_error + pyval" where
  "get_actor_config E config_path =
     (case load_json E config_path of
        Inl e \<Rightarrow> Inl e
      | Inr config \<Rightarrow>
          (case get_input_cookie E ''input.JSON'' of
             Inl e \<Rightarrow> Inl e
           | Inr cookie \<Rightarrow>
               (case getitem_key config ''actor_input'' of
                  Inl e \<Rightarrow> Inl e
                | Inr actor_input \<Rightarrow>
                    (case setitem_key actor_input ''cookie'' cookie of
                       Inl e \<Rightarrow> Inl e
                     | Inr actor_input' \<Rightarrow> setitem_key config ''actor_input'' actor_input'))))"

section \<open>main.py: \<open>LinkedinWebScraper\<close>\<close>

subsection \<open>Strings\<close>

text \<open>\<open>str.lower()\<close> on the code points below 256.\<close>

definition lower_char :: "char \<Rightarrow> char" where
  "lower_char c =
     (let n = code_point c
      in if (65 \<le> n \<and> n \<le> 90) \<or> (192 \<le> n \<and> n \<le> 222 \<and> n \<noteq> 215)
         then char_of (n + 32) else c)"

definition py_lower :: "string \<Rightarrow> string" where
  "py_lower s = map lower_char s"

fun starts_with :: "string \<Rightarrow> string \<Rightarrow> bool" where
  "starts_with [] s = True"
| "starts_with (c # cs) [] = False"
| "starts_with (c # cs) (d # ds) = (c = d \<and> starts_with cs ds)"

text \<open>\<open>sub in s\<close> for two strings.\<close>

fun py_in_str :: "string \<Rightarrow> string \<Rightarrow> bool" where
  "py_in_str sub [] = (sub = [])"
| "py_in_str sub (c # cs) = (starts_with sub (c # cs) \<or> py_in_str sub cs)"

subsection \<open>The scraper object\<close>

text \<open>
  The attributes the methods read: \<open>page_size\<close>, \<open>actor_call\<close> (the run returned by the
  platform, or \<open>None\<close>) and \<open>dataset_client\<close>, which is \<open>None\<close> or the client of one
  dataset, known by the dataset's identifier.
\<close>

record LinkedinWebScraper =
  page_size :: int
  actor_call :: pyval
  dataset_client :: "pyval option"

text \<open>
  \<open>LinkedinWebScraper.__init__\<close>. The first \<open>try\<close> turns every exception of
  \<open>get_actor_config\<close> into \<open>config = None\<close>. The second \<open>try\<close> catches \<open>ApifyApiError\<close>
  only: an exception of another class raised inside it leaves the initializer.
\<close>

definition LinkedinWebScraper_init ::
  "env \<Rightarrow> string \<Rightarrow> int \<Rightarrow> event list \<times> (py_error + LinkedinWebScraper)" where
  "LinkedinWebScraper_init E config_path psize =
     (let (tr, config) =
        (case get_actor_config E config_path of
           Inr c \<Rightarrow> ([], c)
         | Inl e \<Rightarrow>
             if exn_cls e = FileNotFoundError
             then ([LogError (''Configuration file '' @ config_path @ '' not found.'')], PNone)
             else ([LogError (''Error reading configuration file '' @ config_path @ '': ''
                              @ exn_str e)], PNone))
      in case getitem_key config ''actor_name'' of
           Inl e \<Rightarrow> (tr, Inl e)
         | Inr actor_name \<Rightarrow>
             (case getitem_key config ''actor_input'' of
                Inl e \<Rightarrow> (tr, Inl e)
              | Inr actor_input \<Rightarrow>
                  (let tr1 = tr @ [ActorCall actor_name actor_input] in
                   case (case call_actor E actor_name actor_input of
                           Inr run \<Rightarrow> (tr1, Inr run)
                         | Inl e \<Rightarrow>
                             if exn_cls e = ApifyApiError then
                               (tr1 @ [Print (''Error while running actor: '' @ exn_str e)]
                                    @ (if py_in_str ''rate-limit'' (py_lower (exn_str e))
                                          \<or> py_in_str ''429'' (exn_str e)
                                       then [Print ''Detected possible rate limit or scraping block.'']
                                       else []),
                                Inr PNone)
                             else (tr1, Inl e)) of
                     (tr2, Inl e) \<Rightarrow> (tr2, Inl e)
                   | (tr2, Inr run) \<Rightarrow>
                       if py_truthy run then
                         (case getitem_key run ''defaultDatasetId'' of
                            Inl e \<Rightarrow> (tr2, Inl e)
                          | Inr dataset_id \<Rightarrow>
                              (tr2, Inr \<lparr>page_size = psize, actor_call = run,
                                         dataset_client = Some dataset_id\<rparr>))
                       else
                         (tr2, Inr \<lparr>page_size = psize, actor_call = run,
                                    dataset_client = None\<rparr>))))"

subsection \<open>Pagination\<close>

text \<open>
  \<open>get_profiles_page\<close>. With \<open>dataset_client = None\<close> the attribute lookup
  \<open>self.dataset_client.list_items\<close> raises \<open>AttributeError\<close>, which the handler for
  \<open>ApifyApiError\<close> does not catch.
\<close>

definition get_profiles_page ::
  "env \<Rightarrow> LinkedinWebScraper \<Rightarrow> event list \<Rightarrow> int \<Rightarrow> int \<Rightarrow> event list \<times> (py_error + pyval list)" where
  "get_profiles_page E self tr offset limit =
     (case dataset_client self of
        None \<Rightarrow> (tr, Inl (no_attribute PNone ''list_items''))
      | Some dataset_id \<Rightarrow>
          (case list_items E tr dataset_id offset limit of
             Inr items \<Rightarrow> (tr @ [PageRead dataset_id offset limit], Inr items)
           | Inl e \<Rightarrow>
               if exn_cls e = ApifyApiError then
                 (tr @ [PageRead dataset_id offset limit,
                        LogError (''Failed to fetch page: '' @ exn_str e)], Inr [])
               else (tr @ [PageRead dataset_id offset limit], Inl e)))"

text \<open>
  The \<open>while True\<close> loop of \<open>get_all_profiles\<close>. Nothing bounds the number of rounds, so
  the loop is a partial function: \<open>None\<close> is a run that never returns.
\<close>

partial_function (option) get_all_profiles_loop ::
  "env \<Rightarrow> LinkedinWebScraper \<Rightarrow> event list \<Rightarrow> pyval list \<Rightarrow> int
     \<Rightarrow> (event list \<times> (py_error + pyval list)) option" where
  "get_all_profiles_loop E self tr all_profiles offset =
     (case get_profiles_page E self tr offset (page_size self) of
        (tr1, Inl e) \<Rightarrow> Some (tr1, Inl e)
      | (tr1, Inr profiles_page) \<Rightarrow>
          if profiles_page = [] then Some (tr1, Inr all_profiles)
          else get_all_profiles_loop E self
                 (tr1 @ [LogInfo (''Fetched '' @ nat_dec (length profiles_page)
                                  @ '' profiles. Total: ''
                                  @ nat_dec (length (all_profiles @ profiles_page)))])
                 (all_profiles @ profiles_page)
                 (offset + page_size self))"

text \<open>\<open>get_all_profiles\<close>\<close>

definition get_all_profiles ::
  "env \<Rightarrow> LinkedinWebScraper \<Rightarrow> event list \<Rightarrow> (event list \<times> (py_error + pyval list)) option" where
  "get_all_profiles E self tr = get_all_profiles_loop E self tr [] 0"

subsection \<open>\<open>json.dumps(..., indent=2)\<close>\<close>

text \<open>
  One character of a JSON string, with the default \<open>ensure_ascii\<close>: the short escapes,
  the printable ASCII characters as they are, every other code point as \<open>\u00XX\<close>.
\<close>

definition json_escape_char :: "char \<Rightarrow> string" where
  "json_escape_char c =
     (if c = dquote then [bslash, dquote]
      else if c = bslash then [bslash, bslash]
      else if c = py_lf then [bslash, CHR ''n'']
      else if c = py_cr then [bslash, CHR ''r'']
      else if c = py_tab then [bslash, CHR ''t'']
      else if c = CHR 0x08 then [bslash, CHR ''b'']
      else if c = CHR 0x0C then [bslash, CHR ''f'']
      else if 32 \<le> code_point c \<and> code_point c \<le> 126 then [c]
      else [bslash, CHR ''u'', CHR ''0'', CHR ''0''] @ hex2 (code_point c))"

definition json_string :: "string \<Rightarrow> string" where
  "json_string s = [dquote] @ concat (map json_escape_char s) @ [dquote]"

text \<open>The line break before an item at nesting depth \<open>level\<close>, for an indent of \<open>ind\<close>.\<close>

definition newline_indent :: "nat \<Rightarrow> nat \<Rightarrow> string" where
  "newline_indent ind level = py_lf # replicate (ind * level) CHR '' ''"

text \<open>
  The encoder of \<open>json.dumps\<close> with an indent: items separated by a comma and a line
  break, keys by a colon and a space, empty containers as \<open>[]\<close> and \<open>{}\<close>.
\<close>

fun json_encode :: "nat \<Rightarrow> nat \<Rightarrow> pyval \<Rightarrow> string"
  and json_encode_list :: "nat \<Rightarrow> nat \<Rightarrow> pyval list \<Rightarrow> string list"
  and json_encode_items :: "nat \<Rightarrow> nat \<Rightarrow> (string \<times> pyval) list \<Rightarrow> string list" where
  "json_encode ind level PNone = ''null''"
| "json_encode ind level (PBool b) = (if b then ''true'' else ''false'')"
| "json_encode ind level (PInt i) = int_dec i"
| "json_encode ind level (PStr s) = json_string s"
| "json_encode ind level (PList xs) =
     (if xs = [] then ''[]''
      else ''['' @ newline_indent ind (Suc level)
           @ join_with ('','' @ newline_indent ind (Suc level)) (json_encode_list ind (Suc level) xs)
           @ newline_indent ind level @ '']'')"
| "json_encode ind level (PDict kvs) =
     (if kvs = [] then ''{}''
      else ''{'' @ newline_indent ind (Suc level)
           @ join_with ('','' @ newline_indent ind (Suc level)) (json_encode_items ind (Suc level) kvs)
           @ newline_indent ind level @ ''}'')"
| "json_encode_list ind level [] = []"
| "json_encode_list ind level (x # xs) = json_encode ind level x # json_encode_list ind level xs"
| "json_encode_items ind level [] = []"
| "json_encode_items ind level (kv # kvs) =
     (json_string (fst kv) @ '': '' @ json_encode ind level (snd kv))
       # json_encode_items ind level kvs"

definition json_dumps :: "nat \<Rightarrow> pyval \<Rightarrow> string" where
  "json_dumps ind v = json_encode ind 0 v"

subsection \<open>Formatted results\<close>

text \<open>\<open>profile.__dict__\<close> of a \<open>LinkedInProfile\<close>: the fields in the order declared.\<close>

definition LinkedInProfile_dict :: "LinkedInProfile \<Rightarrow> pyval" where
  "LinkedInProfile_dict p =
     PDict [(''name'', name p), (''position'', position p), (''company'', company p),
            (''location'', location p), (''connections'', connections p),
            (''education'', education p)]"

text \<open>The \<open>for\<close> loop of \<open>get_formatted_results\<close>.\<close>

fun format_profiles :: "pyval list \<Rightarrow> pyval list \<Rightarrow> py_error + pyval list" where
  "format_profiles [] formatted_profiles = Inr formatted_profiles"
| "format_profiles (raw_profile # rest) formatted_profiles =
     (case from_api_response raw_profile of
        Inl e \<Rightarrow> Inl e
      | Inr profile \<Rightarrow> format_profiles rest (formatted_profiles @ [LinkedInProfile_dict profile]))"

text \<open>\<open>LinkedinWebScraper.get_formatted_results\<close>\<close>

definition get_formatted_results ::
  "env \<Rightarrow> LinkedinWebScraper \<Rightarrow> event list \<Rightarrow> (event list \<times> (py_error + string)) option" where
  "get_formatted_results E self tr =
     (case get_all_profiles E self tr of
        None \<Rightarrow> None
      | Some (tr1, Inl e) \<Rightarrow> Some (tr1, Inl e)
      | Some (tr1, Inr profiles) \<Rightarrow>
          (case format_profiles profiles [] of
             Inl e \<Rightarrow> Some (tr1, Inl e)
           | Inr formatted_profiles \<Rightarrow> Some (tr1, Inr (json_dumps 2 (PList formatted_profiles)))))"

section \<open>main.py: \<open>GitHubWebScraper\<close>\<close>

definition BASE_URL :: string where
  "BASE_URL = ''https://api.github.com/users''"

text \<open>
  The attributes the methods read. The token and the headers are the same for every
  request and are left to the environment.
\<close>

record GitHubWebScraper =
  github_profiles :: "GitHubProfile list"
  usernames :: "string list"
  gh_page_size :: int

text \<open>
  \<open>Response.raise_for_status\<close>: an \<open>HTTPError\<close> for a status from 400 to 599, with the
  text that \<open>requests\<close> gives it.
\<close>

definition raise_for_status :: "response \<Rightarrow> py_error option" where
  "raise_for_status r =
     (if 400 \<le> status_code r \<and> status_code r < 500 then
        Some (Exn RequestException
                (int_dec (status_code r) @ '' Client Error: '' @ reason r @ '' for url: '' @ url r))
      else if 500 \<le> status_code r \<and> status_code r < 600 then
        Some (Exn RequestException
                (int_dec (status_code r) @ '' Server Error: '' @ reason r @ '' for url: '' @ url r))
      else None)"

text \<open>
  The call \<open>GitHubProfile(username=data["login"], full_name=data.get("name"), ...)\<close>, its
  arguments evaluated in the order written.
\<close>

definition make_GitHubProfile :: "pyval \<Rightarrow> py_error + GitHubProfile" where
  "make_GitHubProfile data =
     (case getitem_key data ''login'' of
        Inl e \<Rightarrow> Inl e
      | Inr login \<Rightarrow>
          (case py_get data ''name'' PNone of
             Inl e \<Rightarrow> Inl e
           | Inr nm \<Rightarrow>
               (case py_get data ''bio'' PNone of
                  Inl e \<Rightarrow> Inl e
                | Inr b \<Rightarrow>
                    (case getitem_key data ''public_repos'' of
                       Inl e \<Rightarrow> Inl e
                     | Inr repos \<Rightarrow>
                         (case getitem_key data ''followers'' of
                            Inl e \<Rightarrow> Inl e
                          | Inr fol \<Rightarrow>
                              Inr \<lparr>username = login, full_name = nm, bio = b,
                                   public_repos = repos, followers = fol\<rparr>)))))"

text \<open>
  The handler \<open>except requests.exceptions.RequestException as e\<close>. It reads the local
  variable \<open>response\<close>, which holds the last response that \<open>requests.get\<close> returned in
  this call of \<open>fetch_profiles\<close>, and is unbound before the first one.
\<close>

definition request_failed ::
  "py_error \<Rightarrow> string \<Rightarrow> response option \<Rightarrow> event list \<Rightarrow> event list \<times> (py_error + unit)" where
  "request_failed e uname resp tr =
     (case resp of
        None \<Rightarrow>
          (tr, Inl (Exn UnboundLocalError
                      (''cannot access local variable '' @ [squote] @ ''response'' @ [squote]
                       @ '' where it is not associated with a value'')))
      | Some r \<Rightarrow>
          if status_code r = 404 then (tr @ [LogError (''User '' @ uname @ '' not found'')], Inr ())
          else if status_code r = 403 then (tr @ [LogError ''API rate limit exceeded''], Inr ())
          else (tr @ [LogError (''Error: '' @ exn_str e)], Inr ()))"

text \<open>
  One round of the \<open>for\<close> loop of \<open>fetch_profiles\<close>, on the local variable \<open>response\<close>,
  the trace and \<open>self.github_profiles\<close>. An exception that is not a \<open>RequestException\<close>
  leaves the loop.
\<close>

definition fetch_profile ::
  "env \<Rightarrow> string \<Rightarrow> response option \<Rightarrow> event list \<Rightarrow> GitHubProfile list
     \<Rightarrow> event list \<times> (py_error + response option \<times> GitHubProfile list)" where
  "fetch_profile E uname resp tr profiles =
     (let target = BASE_URL @ ''/'' @ uname; tr1 = tr @ [HttpGet target] in
      case requests_get E tr target of
        Inl e \<Rightarrow>
          if exn_cls e = RequestException then
            (case request_failed e uname resp tr1 of
               (tr2, Inl e2) \<Rightarrow> (tr2, Inl e2)
             | (tr2, Inr u) \<Rightarrow> (tr2, Inr (resp, profiles)))
          else (tr1, Inl e)
      | Inr r \<Rightarrow>
          (case raise_for_status r of
             Some e \<Rightarrow>
               (case request_failed e uname (Some r) tr1 of
                  (tr2, Inl e2) \<Rightarrow> (tr2, Inl e2)
                | (tr2, Inr u) \<Rightarrow> (tr2, Inr (Some r, profiles)))
           | None \<Rightarrow>
               (case json_body r of
                  Inl e \<Rightarrow>
                    if exn_cls e = RequestException then
                      (case request_failed e uname (Some r) tr1 of
                         (tr2, Inl e2) \<Rightarrow> (tr2, Inl e2)
                       | (tr2, Inr u) \<Rightarrow> (tr2, Inr (Some r, profiles)))
                    else (tr1, Inl e)
                | Inr data \<Rightarrow>
                    (case make_GitHubProfile data of
                       Inl e \<Rightarrow> (tr1, Inl e)
                     | Inr p \<Rightarrow>
                         (tr1 @ [LogInfo (''Fetched profile for '' @ uname)],
                          Inr (Some r, profiles @ [p]))))))"

fun fetch_profiles_loop ::
  "env \<Rightarrow> string list \<Rightarrow> response option \<Rightarrow> event list \<Rightarrow> GitHubProfile list
     \<Rightarrow> event list \<times> (py_error + GitHubProfile list)" where
  "fetch_profiles_loop E [] resp tr profiles = (tr, Inr profiles)"
| "fetch_profiles_loop E (uname # rest) resp tr profiles =
     (case fetch_profile E uname resp tr profiles of
        (tr1, Inl e) \<Rightarrow> (tr1, Inl e)
      | (tr1, Inr (resp1, profiles1)) \<Rightarrow> fetch_profiles_loop E rest resp1 tr1 profiles1)"

text \<open>\<open>GitHubWebScraper.fetch_profiles\<close>\<close>

definition fetch_profiles ::
  "env \<Rightarrow> GitHubWebScraper \<Rightarrow> event list \<Rightarrow> event list \<times> (py_error + GitHubWebScraper)" where
  "fetch_profiles E self tr =
     (case fetch_profiles_loop E (usernames self) None tr (github_profiles self) of
        (tr1, Inl e) \<Rightarrow> (tr1, Inl e)
      | (tr1, Inr profiles) \<Rightarrow> (tr1, Inr (self\<lparr>github_profiles := profiles\<rparr>)))"

text \<open>\<open>GitHubWebScraper.__init__\<close>\<close>

definition GitHubWebScraper_init ::
  "env \<Rightarrow> string list \<Rightarrow> int \<Rightarrow> event list \<times> (py_error + GitHubWebScraper)" where
  "GitHubWebScraper_init E unames psize =
     fetch_profiles E
       \<lparr>github_profiles = [], usernames = unames, gh_page_size = psize\<rparr>
       [LogInfo (''Initializing GitHub scraper for '' @ nat_dec (length unames) @ '' users'')]"

text \<open>\<open>GitHubWebScraper.get_formatted_results\<close>\<close>

definition gh_get_formatted_results :: "GitHubWebScraper \<Rightarrow> string" where
  "gh_get_formatted_results self =
     json_dumps 2
       (PList (map (\<lambda>profile.
                  PDict [(''username'', username profile), (''full_name'', full_name profile),
                         (''bio'', bio profile), (''public_repos'', public_repos profile),
                         (''followers'', followers profile)])
               (github_profiles self)))"

subsection \<open>The CSV file\<close>

text \<open>
  The \<open>csv\<close> writer in its default dialect: fields separated by a comma, a field quoted
  only when it has a comma, a double quote, a carriage return or a line feed (a double
  quote inside it is doubled), and each row ended by a carriage return and a line feed.
  \<open>None\<close> is written as the empty field, a \<open>str\<close> as it is, any other value as
  \<open>str(value)\<close>. A row that is one empty field is written as two double quotes.
\<close>

definition csv_field_text :: "pyval \<Rightarrow> string" where
  "csv_field_text v = (case v of PNone \<Rightarrow> [] | _ \<Rightarrow> py_str v)"

definition csv_special :: "char \<Rightarrow> bool" where
  "csv_special c = (c = CHR '','' \<or> c = dquote \<or> c = py_cr \<or> c = py_lf)"

definition csv_quote :: "string \<Rightarrow> string" where
  "csv_quote s =
     (if list_ex csv_special s
      then [dquote] @ concat (map (\<lambda>c. if c = dquote then [dquote, dquote] else [c]) s) @ [dquote]
      else s)"

definition csv_writerow :: "pyval list \<Rightarrow> string" where
  "csv_writerow cells =
     (let texts = map csv_field_text cells
      in (if texts = [[]] then [dquote, dquote] else join_with '','' (map csv_quote texts))
         @ [py_cr, py_lf])"

text \<open>
  \<open>DictWriter.writerow\<close> with the default \<open>extrasaction\<close> and \<open>restval\<close>: keys of the row
  that are no field names raise \<open>ValueError\<close>, which lists them (here in the order of the
  row; Python lists a set); a field name the row lacks is written empty.
\<close>

definition DictWriter_writerow :: "string list \<Rightarrow> pydict \<Rightarrow> py_error + string" where
  "DictWriter_writerow fieldnames rowdict =
     (let wrong_fields = filter (\<lambda>k. k \<notin> set fieldnames) (map fst rowdict)
      in if wrong_fields \<noteq> []
         then Inl (Exn ValueError (''dict contains fields not in fieldnames: ''
                                   @ join_with '', '' (map repr_str wrong_fields)))
         else Inr (csv_writerow (map (\<lambda>k. dict_get rowdict k (PStr '''')) fieldnames)))"

text \<open>\<open>DictWriter.writerows\<close>, on the text written so far.\<close>

fun DictWriter_writerows :: "string list \<Rightarrow> pydict list \<Rightarrow> string \<Rightarrow> py_error + string" where
  "DictWriter_writerows fieldnames [] out = Inr out"
| "DictWriter_writerows fieldnames (row # rows) out =
     (case DictWriter_writerow fieldnames row of
        Inl e \<Rightarrow> Inl e
      | Inr line \<Rightarrow> DictWriter_writerows fieldnames rows (out @ line))"

text \<open>
  A file opened with \<open>open(filename, "w")\<close> is in text mode with the default newline
  handling: each line feed written becomes \<open>os.linesep\<close>.
\<close>

definition text_mode_write :: "string \<Rightarrow> string \<Rightarrow> string" where
  "text_mode_write linesep s = concat (map (\<lambda>c. if c = py_lf then linesep else [c]) s)"

definition gh_fieldnames :: "string list" where
  "gh_fieldnames =
     [''Username'', ''Fullname'', ''Bio'', ''Number of public repositories'',
      ''Number of followers'']"

text \<open>
  \<open>GitHubWebScraper.save_results\<close>: the content of the file it leaves, given
  \<open>os.linesep\<close>.
\<close>

definition gh_save_results :: "string \<Rightarrow> GitHubWebScraper \<Rightarrow> py_error + string" where
  "gh_save_results linesep self =
     (let header = csv_writerow (map PStr gh_fieldnames);
          rows = map (\<lambda>profile.
                    [(''Username'', username profile), (''Fullname'', full_name profile),
                     (''Bio'', bio profile),
                     (''Number of public repositories'', public_repos profile),
                     (''Number of followers'', followers profile)])
                 (github_profiles self)
      in case DictWriter_writerows gh_fieldnames rows header of
           Inl e \<Rightarrow> Inl e
         | Inr out \<Rightarrow> Inr (text_mode_write linesep out))"

section \<open>Datasets and example runs\<close>

text \<open>
  A finite backing dataset answers a ranged read with the items from \<open>offset\<close> on, at most
  \<open>limit\<close> of them, in their order.
\<close>

definition ranged_read :: "pyval list \<Rightarrow> int \<Rightarrow> int \<Rightarrow> pyval list" where
  "ranged_read ds offset limit = take (nat limit) (drop (nat offset) ds)"

text \<open>An environment whose dataset is \<open>ds\<close>, every read succeeding.\<close>

definition dataset_env :: "pyval list \<Rightarrow> env" where
  "dataset_env ds =
     \<lparr>load_json = (\<lambda>path. Inl (Exn FileNotFoundError path)),
      call_actor = (\<lambda>actor_name run_input. Inr (PDict [(''defaultDatasetId'', PStr ''ds1'')])),
      list_items = (\<lambda>tr d offset limit. Inr (ranged_read ds offset limit)),
      requests_get = (\<lambda>tr target. Inl (Exn RequestException ''offline''))\<rparr>"


text \<open>A scraper whose job was launched and gave the dataset \<open>ds1\<close>.\<close>

definition ready_scraper :: "int \<Rightarrow> LinkedinWebScraper" where
  "ready_scraper psize =
     \<lparr>page_size = psize, actor_call = PDict [(''defaultDatasetId'', PStr ''ds1'')],
      dataset_client = Some (PStr ''ds1'')\<rparr>"

section \<open>Shapes of raw records\<close>




section \<open>Example environments of a run\<close>

text \<open>
  Both configuration files are there and well formed, and the platform refuses the job
  with a rate-limit error.
\<close>

definition rate_limited_env :: env where
  "rate_limited_env =
     \<lparr>load_json = (\<lambda>path.
         if path = ''input.JSON'' then Inr (PDict [(''cookie'', PStr ''li_at=abc'')])
         else Inr (PDict [(''actor_name'', PStr ''curious_coder/linkedin-profile-scraper''),
                          (''actor_input'', PDict [(''urls'', PList [])])])),
      call_actor = (\<lambda>actor_name run_input. Inl (Exn ApifyApiError ''429 Too Many Requests'')),
      list_items = (\<lambda>tr d offset limit. Inr []),
      requests_get = (\<lambda>tr target. Inl (Exn RequestException ''offline''))\<rparr>"

text \<open>No configuration file: \<open>open\<close> raises \<open>FileNotFoundError\<close>.\<close>

definition no_config_env :: env where
  "no_config_env =
     \<lparr>load_json = (\<lambda>path.
         Inl (Exn FileNotFoundError (''[Errno 2] No such file or directory: '' @ repr_str path))),
      call_actor = (\<lambda>actor_name run_input. Inr (PDict [(''defaultDatasetId'', PStr ''ds1'')])),
      list_items = (\<lambda>tr d offset limit. Inr []),
      requests_get = (\<lambda>tr target. Inl (Exn RequestException ''offline''))\<rparr>"

text \<open>A configuration file that is not JSON: \<open>json.load\<close> raises \<open>JSONDecodeError\<close>.\<close>

definition bad_config_env :: env where
  "bad_config_env =
     \<lparr>load_json = (\<lambda>path.
         Inl (Exn JSONDecodeError ''Expecting value: line 1 column 1 (char 0)'')),
      call_actor = (\<lambda>actor_name run_input. Inr (PDict [(''defaultDatasetId'', PStr ''ds1'')])),
      list_items = (\<lambda>tr d offset limit. Inr []),
      requests_get = (\<lambda>tr target. Inl (Exn RequestException ''offline''))\<rparr>"

text \<open>No network: \<open>requests.get\<close> raises \<open>ConnectionError\<close>.\<close>

definition offline_env :: env where
  "offline_env =
     \<lparr>load_json = (\<lambda>path. Inl (Exn FileNotFoundError path)),
      call_actor = (\<lambda>actor_name run_input. Inl (Exn ApifyApiError ''offline'')),
      list_items = (\<lambda>tr d offset limit. Inr []),
      requests_get = (\<lambda>tr target.
         Inl (Exn RequestException ''Failed to establish a new connection''))\<rparr>"

text \<open>A GitHub API that knows every user but \<open>ghost\<close>.\<close>

definition github_env :: env where
  "github_env =
     \<lparr>load_json = (\<lambda>path. Inl (Exn FileNotFoundError path)),
      call_actor = (\<lambda>actor_name run_input. Inl (Exn ApifyApiError ''offline'')),
      list_items = (\<lambda>tr d offset limit. Inr []),
      requests_get = (\<lambda>tr target.
         if target = BASE_URL @ ''/ghost'' then
           Inr \<lparr>status_code = 404, reason = ''Not Found'', url = target,
                json_body = Inr (PDict [(''message'', PStr ''Not Found'')])\<rparr>
         else
           Inr \<lparr>status_code = 200, reason = ''OK'', url = target,
                json_body = Inr (PDict [(''login'', PStr (drop (length BASE_URL + 1) target)),
                                        (''public_repos'', PInt 1),
                                        (''followers'', PInt 2)])\<rparr>)\<rparr>"

section \<open>Pagination\<close>

lemma page_read_ok:
  assumes "dataset_client self = Some ds" "list_items E tr ds offset limit = Inr items"
  shows "get_profiles_page E self tr offset limit = (tr @ [PageRead ds offset limit], Inr items)"
  using assms by (simp add: get_profiles_page_def)


text \<open>One round of the loop, by the outcome of its page read.\<close>

lemma loop_stops:
  assumes "get_profiles_page E self tr offset (page_size self) = (tr1, Inr [])"
  shows "get_all_profiles_loop E self tr acc offset = Some (tr1, Inr acc)"
  by (subst get_all_profiles_loop.simps) (simp add: assms)

lemma loop_continues:
  assumes "get_profiles_page E self tr offset (page_size self) = (tr1, Inr page)" "page \<noteq> []"
  shows "get_all_profiles_loop E self tr acc offset =
    get_all_profiles_loop E self
      (tr1 @ [LogInfo (''Fetched '' @ nat_dec (length page) @ '' profiles. Total: ''
                       @ nat_dec (length (acc @ page)))])
      (acc @ page) (offset + page_size self)"
  by (subst get_all_profiles_loop.simps) (simp add: assms)

lemma loop_raises:
  assumes "get_profiles_page E self tr offset (page_size self) = (tr1, Inl e)"
  shows "get_all_profiles_loop E self tr acc offset = Some (tr1, Inl e)"
  by (subst get_all_profiles_loop.simps) (simp add: assms)

text \<open>
  With \<open>n\<close> items read so far the loop returns the whole dataset: by induction on the
  number of items left.
\<close>

lemma loop_reads_all:
  assumes ps: "0 < page_size self" and dc: "dataset_client self = Some d"
    and rd: "\<forall>tr offset limit. list_items E tr d offset limit = Inr (ranged_read ds offset limit)"
  shows "\<exists>tr'. get_all_profiles_loop E self tr (take n ds) (int n) = Some (tr', Inr ds)"
proof (induction "length ds - n" arbitrary: n tr rule: less_induct)
  case less
  let ?p = "page_size self"
  let ?page = "ranged_read ds (int n) ?p"
  have pg: "get_profiles_page E self tr (int n) ?p = (tr @ [PageRead d (int n) ?p], Inr ?page)"
    using dc rd by (simp add: page_read_ok)
  show ?case
  proof (cases "length ds \<le> n")
    case True
    then have "?page = []" by (simp add: ranged_read_def)
    with pg True show ?thesis by (simp add: loop_stops)
  next
    case False
    then have ne: "?page \<noteq> []" using ps by (simp add: ranged_read_def)
    have acc: "take n ds @ ?page = take (n + nat ?p) ds"
      by (simp add: ranged_read_def take_add)
    have off: "int n + ?p = int (n + nat ?p)" using ps by simp
    have "length ds - (n + nat ?p) < length ds - n" using False ps by simp
    from less[OF this] obtain tr' where
      "get_all_profiles_loop E self
         (tr @ [PageRead d (int n) ?p]
             @ [LogInfo (''Fetched '' @ nat_dec (length ?page) @ '' profiles. Total: ''
                         @ nat_dec (length (take n ds @ ?page)))])
         (take (n + nat ?p) ds) (int (n + nat ?p)) = Some (tr', Inr ds)"
      by blast
    then have "get_all_profiles_loop E self tr (take n ds) (int n) = Some (tr', Inr ds)"
      by (simp only: loop_continues[OF pg ne, of "take n ds"] acc off append_assoc)
    then show ?thesis by blast
  qed
qed

text \<open>
  C1. For a positive page size and a finite backing dataset whose page reads all succeed,
  \<open>get_all_profiles\<close> returns (it is not \<open>None\<close>, and it does not raise), and what it
  returns is the dataset, item for item in the original order. Against the empty dataset
  it returns the empty list after one page request, the one at offset 0.
\<close>

theorem get_all_profiles_returns_dataset:
  assumes "0 < page_size self" and "dataset_client self = Some d"
    and "\<forall>tr offset limit. list_items E tr d offset limit = Inr (ranged_read ds offset limit)"
  shows "(\<exists>tr'. get_all_profiles E self tr = Some (tr', Inr ds))
       \<and> (ds = [] \<longrightarrow>
            get_all_profiles E self tr = Some (tr @ [PageRead d 0 (page_size self)], Inr []))"
proof
  show "\<exists>tr'. get_all_profiles E self tr = Some (tr', Inr ds)"
    using loop_reads_all[OF assms, of tr 0] by (simp add: get_all_profiles_def)
next
  show "ds = [] \<longrightarrow>
          get_all_profiles E self tr = Some (tr @ [PageRead d 0 (page_size self)], Inr [])"
  proof
    assume "ds = []"
    then have "get_profiles_page E self tr 0 (page_size self)
                 = (tr @ [PageRead d 0 (page_size self)], Inr [])"
      using assms by (simp add: page_read_ok ranged_read_def)
    then show "get_all_profiles E self tr = Some (tr @ [PageRead d 0 (page_size self)], Inr [])"
      by (simp add: get_all_profiles_def loop_stops)
  qed
qed

theorem get_all_profiles_returns_dataset_witness:
  "(\<exists>tr'. get_all_profiles (dataset_env [PInt 1, PInt 2, PInt 3]) (ready_scraper 2) []
            = Some (tr', Inr [PInt 1, PInt 2, PInt 3]))
   \<and> get_all_profiles (dataset_env []) (ready_scraper 2) []
        = Some ([PageRead (PStr ''ds1'') 0 2], Inr [])"
proof -
  have a: "0 < page_size (ready_scraper 2)" by (simp add: ready_scraper_def)
  have b: "dataset_client (ready_scraper 2) = Some (PStr ''ds1'')" by (simp add: ready_scraper_def)
  have c: "\<forall>tr offset limit. list_items (dataset_env ds) tr (PStr ''ds1'') offset limit
              = Inr (ranged_read ds offset limit)" for ds
    by (simp add: dataset_env_def)
  have p: "page_size (ready_scraper 2) = 2" by (simp add: ready_scraper_def)
  show ?thesis
    using get_all_profiles_returns_dataset[OF a b c, of "[PInt 1, PInt 2, PInt 3]" "[]"]
      get_all_profiles_returns_dataset[OF a b c, of "[]" "[]"] p
    by simp
qed



section \<open>Normalizing a LinkedIn record\<close>



lemma falsy_cases: "v = PNone \<or> v = PList [] \<Longrightarrow> \<not> py_truthy v"
  by (auto simp: py_truthy_def)









lemma from_api_response_Inr:
  assumes "from_api_response (PDict d) = Inr r"
  shows "location r = dict_get d ''geoLocationName'' (PStr '''')
       \<and> connections r = dict_get d ''connectionsCount'' (PInt 0)
       \<and> get_position d = Inr (position r) \<and> get_company d = Inr (company r)
       \<and> get_education d = Inr (education r)"
  using assms by (auto simp: from_api_response_def Let_def split: sum.splits)




text \<open>
  C7, as stated, fails on the code: \<open>connections\<close> is whatever the record holds under
  \<open>connectionsCount\<close>, and nothing checks it. A null count gives \<open>None\<close>, a negative
  count stays negative.
\<close>

theorem connections_null_counterexample:
  "from_api_response (PDict [(''firstName'', PStr ''Ada''), (''connectionsCount'', PNone)])
     = Inr \<lparr>name = PStr ''Ada'', position = PStr '''', company = PStr '''',
            location = PStr '''', connections = PNone, education = PStr ''''\<rparr>
   \<and> from_api_response (PDict [(''firstName'', PStr ''Ada''), (''connectionsCount'', PInt (- 1))])
     = Inr \<lparr>name = PStr ''Ada'', position = PStr '''', company = PStr '''',
            location = PStr '''', connections = PInt (- 1), education = PStr ''''\<rparr>"
  by code_simp

text \<open>
  C7, amended. In every record that \<open>from_api_response\<close> returns, \<open>connections\<close> is the
  value under \<open>connectionsCount\<close>, copied as it is, and \<open>0\<close> when the key is absent. So it
  is a non-negative integer whenever \<open>connectionsCount\<close> is absent or is one.
\<close>

theorem connections_copied:
  assumes "from_api_response (PDict d) = Inr r"
  shows "connections r = (case map_of d ''connectionsCount'' of None \<Rightarrow> PInt 0 | Some v \<Rightarrow> v)
       \<and> ((map_of d ''connectionsCount'' = None
            \<or> (\<exists>n. 0 \<le> n \<and> map_of d ''connectionsCount'' = Some (PInt n)))
           \<longrightarrow> (\<exists>n. 0 \<le> n \<and> connections r = PInt n))"
  using from_api_response_Inr[OF assms] by (auto simp: dict_get_def)

theorem connections_copied_witness:
  "\<exists>r. from_api_response
          (PDict [(''firstName'', PStr ''Ada''), (''connectionsCount'', PInt 500)]) = Inr r
      \<and> connections r = PInt 500"
proof -
  have a: "from_api_response (PDict [(''firstName'', PStr ''Ada''), (''connectionsCount'', PInt 500)])
     = Inr \<lparr>name = PStr ''Ada'', position = PStr '''', company = PStr '''',
            location = PStr '''', connections = PInt 500, education = PStr ''''\<rparr>"
    by code_simp
  show ?thesis using connections_copied[OF a] a by simp
qed








section \<open>The GitHub records\<close>

lemma make_GitHubProfile_fields:
  assumes "map_of d ''login'' = Some l" "map_of d ''public_repos'' = Some pr"
    "map_of d ''followers'' = Some f"
  shows "make_GitHubProfile (PDict d) =
     Inr \<lparr>username = l, full_name = dict_get d ''name'' PNone, bio = dict_get d ''bio'' PNone,
          public_repos = pr, followers = f\<rparr>"
  using assms by (simp add: make_GitHubProfile_def getitem_key_def py_get_def)

lemma fetch_profile_ok:
  assumes "requests_get E tr (BASE_URL @ ''/'' @ uname) = Inr r"
    "raise_for_status r = None" "json_body r = Inr data" "make_GitHubProfile data = Inr p"
  shows "fetch_profile E uname resp tr profiles =
     (tr @ [HttpGet (BASE_URL @ ''/'' @ uname), LogInfo (''Fetched profile for '' @ uname)],
      Inr (Some r, profiles @ [p]))"
  using assms by (simp add: fetch_profile_def)

text \<open>
  C8. For a response body that has the required keys \<open>login\<close>, \<open>public_repos\<close> and
  \<open>followers\<close>, the record built from it copies the three values as they are, and
  \<open>full_name\<close> and \<open>bio\<close> are the values under \<open>name\<close> and \<open>bio\<close>, or \<open>None\<close> when the key
  is absent: \<open>None\<close>, not the empty string. That record is the one \<open>fetch_profiles\<close>
  appends to \<open>github_profiles\<close> for a response with no error status.
\<close>

theorem github_profile_keeps_absence:
  assumes "map_of d ''login'' = Some l" and "map_of d ''public_repos'' = Some pr"
    and "map_of d ''followers'' = Some f"
  shows "(\<exists>p. make_GitHubProfile (PDict d) = Inr p
           \<and> username p = l \<and> public_repos p = pr \<and> followers p = f
           \<and> full_name p = (case map_of d ''name'' of None \<Rightarrow> PNone | Some v \<Rightarrow> v)
           \<and> bio p = (case map_of d ''bio'' of None \<Rightarrow> PNone | Some v \<Rightarrow> v)
           \<and> (map_of d ''name'' = None \<longrightarrow> full_name p = PNone \<and> full_name p \<noteq> PStr '''')
           \<and> (map_of d ''bio'' = None \<longrightarrow> bio p = PNone \<and> bio p \<noteq> PStr '''')
           \<and> (\<forall>E tr uname r resp profiles.
                 requests_get E tr (BASE_URL @ ''/'' @ uname) = Inr r
                 \<and> raise_for_status r = None \<and> json_body r = Inr (PDict d) \<longrightarrow>
                 fetch_profile E uname resp tr profiles =
                   (tr @ [HttpGet (BASE_URL @ ''/'' @ uname),
                          LogInfo (''Fetched profile for '' @ uname)],
                    Inr (Some r, profiles @ [p]))))"
proof -
  note m = make_GitHubProfile_fields[OF assms]
  have "\<forall>E tr uname r resp profiles.
          requests_get E tr (BASE_URL @ ''/'' @ uname) = Inr r
          \<and> raise_for_status r = None \<and> json_body r = Inr (PDict d) \<longrightarrow>
          fetch_profile E uname resp tr profiles =
            (tr @ [HttpGet (BASE_URL @ ''/'' @ uname),
                   LogInfo (''Fetched profile for '' @ uname)],
             Inr (Some r, profiles @ [\<lparr>username = l, full_name = dict_get d ''name'' PNone,
                                       bio = dict_get d ''bio'' PNone,
                                       public_repos = pr, followers = f\<rparr>]))"
    by (simp add: fetch_profile_ok[OF _ _ _ m])
  then show ?thesis
    by (simp add: m dict_get_def)
qed

theorem github_profile_keeps_absence_witness:
  "make_GitHubProfile
     (PDict [(''login'', PStr ''octocat''), (''public_repos'', PInt 8), (''followers'', PInt 3)])
   = Inr \<lparr>username = PStr ''octocat'', full_name = PNone, bio = PNone,
          public_repos = PInt 8, followers = PInt 3\<rparr>"
proof -
  let ?d = "[(''login'', PStr ''octocat''), (''public_repos'', PInt 8), (''followers'', PInt 3)]"
  have a: "map_of ?d ''login'' = Some (PStr ''octocat'')" by simp
  have b: "map_of ?d ''public_repos'' = Some (PInt 8)" by simp
  have c: "map_of ?d ''followers'' = Some (PInt 3)" by simp
  from github_profile_keeps_absence[OF a b c] obtain p where
    p: "make_GitHubProfile (PDict ?d) = Inr p" "username p = PStr ''octocat''"
      "public_repos p = PInt 8" "followers p = PInt 3"
      "full_name p = (case map_of ?d ''name'' of None \<Rightarrow> PNone | Some v \<Rightarrow> v)"
      "bio p = (case map_of ?d ''bio'' of None \<Rightarrow> PNone | Some v \<Rightarrow> v)"
    by blast
  then have "p = \<lparr>username = PStr ''octocat'', full_name = PNone, bio = PNone,
          public_repos = PInt 8, followers = PInt 3\<rparr>"
    by simp
  with p(1) show ?thesis by simp
qed

section \<open>The CSV file of the GitHub profiles\<close>

lemma gh_writerow:
  "DictWriter_writerow gh_fieldnames
     [(''Username'', username p), (''Fullname'', full_name p), (''Bio'', bio p),
      (''Number of public repositories'', public_repos p),
      (''Number of followers'', followers p)]
   = Inr (csv_writerow [username p, full_name p, bio p, public_repos p, followers p])"
  by (simp add: DictWriter_writerow_def gh_fieldnames_def dict_get_def)

lemma gh_writerows:
  "DictWriter_writerows gh_fieldnames
     (map (\<lambda>p. [(''Username'', username p), (''Fullname'', full_name p), (''Bio'', bio p),
                (''Number of public repositories'', public_repos p),
                (''Number of followers'', followers p)]) ps) out
   = Inr (out @ concat (map (\<lambda>p. csv_writerow [username p, full_name p, bio p,
                                                 public_repos p, followers p]) ps))"
proof (induction ps arbitrary: out)
  case Nil
  show ?case by simp
next
  case (Cons p ps)
  show ?case by (simp add: gh_writerow Cons.IH)
qed

lemma gh_save_results_rows:
  "gh_save_results linesep self =
     Inr (text_mode_write linesep
            (csv_writerow (map PStr gh_fieldnames)
             @ concat (map (\<lambda>p. csv_writerow [username p, full_name p, bio p,
                                                public_repos p, followers p])
                         (github_profiles self))))"
  by (simp add: gh_save_results_def gh_writerows)

lemma header_line:
  "csv_writerow (map PStr gh_fieldnames)
     = ''Username,Fullname,Bio,Number of public repositories,Number of followers''
       @ [py_cr, py_lf]"
  by code_simp

lemma testuser_line:
  "csv_writerow [PStr ''testuser'', PStr ''Test User'', PStr ''Test Bio'', PInt 10, PInt 20]
     = ''testuser,Test User,Test Bio,10,20'' @ [py_cr, py_lf]"
  by code_simp

lemma posix_write: "text_mode_write [py_lf] s = s"
  by (induction s) (simp_all add: text_mode_write_def)

text \<open>
  C9. For the one profile \<open>testuser\<close>, with \<open>os.linesep\<close> a line feed, \<open>save_results\<close>
  leaves a file of two lines, each ended by the CSV line terminator (carriage return, line
  feed): the header \<open>Username,Fullname,Bio,Number of public repositories,Number of
  followers\<close> and the row \<open>testuser,Test User,Test Bio,10,20\<close>. For any list of
  profiles, the file is the header followed by one row per profile, in the order of the
  list, and writing it never raises.
\<close>

theorem github_csv_file:
  "gh_save_results [py_lf]
     \<lparr>github_profiles =
        [\<lparr>username = PStr ''testuser'', full_name = PStr ''Test User'', bio = PStr ''Test Bio'',
          public_repos = PInt 10, followers = PInt 20\<rparr>],
      usernames = [''testuser''], gh_page_size = 30\<rparr>
   = Inr (''Username,Fullname,Bio,Number of public repositories,Number of followers''
          @ [py_cr, py_lf] @ ''testuser,Test User,Test Bio,10,20'' @ [py_cr, py_lf])
   \<and> (\<forall>linesep self.
        gh_save_results linesep self =
          Inr (text_mode_write linesep
                 (csv_writerow (map PStr gh_fieldnames)
                  @ concat (map (\<lambda>p. csv_writerow [username p, full_name p, bio p,
                                                     public_repos p, followers p])
                              (github_profiles self)))))"
  by (simp add: gh_save_results_rows header_line testuser_line posix_write)

section \<open>Failures of the launch and of the configuration\<close>

lemma init_launch_failed:
  assumes "get_actor_config E config_path = Inr config"
    and "getitem_key config ''actor_name'' = Inr actor_name"
    and "getitem_key config ''actor_input'' = Inr actor_input"
    and "call_actor E actor_name actor_input = Inl e" and "exn_cls e = ApifyApiError"
  shows "LinkedinWebScraper_init E config_path psize =
     ([ActorCall actor_name actor_input, Print (''Error while running actor: '' @ exn_str e)]
        @ (if py_in_str ''rate-limit'' (py_lower (exn_str e)) \<or> py_in_str ''429'' (exn_str e)
           then [Print ''Detected possible rate limit or scraping block.''] else []),
      Inr \<lparr>page_size = psize, actor_call = PNone, dataset_client = None\<rparr>)"
  using assms by (simp add: LinkedinWebScraper_init_def py_truthy_def)

lemma no_dataset_client:
  assumes "dataset_client self = None"
  shows "get_formatted_results E self tr = Some (tr, Inl (no_attribute PNone ''list_items''))"
proof -
  have "get_profiles_page E self tr 0 (page_size self)
          = (tr, Inl (no_attribute PNone ''list_items''))"
    using assms by (simp add: get_profiles_page_def)
  then have "get_all_profiles E self tr = Some (tr, Inl (no_attribute PNone ''list_items''))"
    by (simp add: get_all_profiles_def loop_raises)
  then show ?thesis by (simp add: get_formatted_results_def)
qed

text \<open>
  C2. When the job launch fails with \<open>ApifyApiError\<close>, the initializer returns a scraper
  with \<open>actor_call = None\<close> and \<open>dataset_client = None\<close>. On that scraper
  \<open>get_formatted_results\<close> issues no page read (the trace is as it was), and it does not
  return \<open>"[]"\<close>: \<open>self.dataset_client.list_items\<close> raises \<open>AttributeError\<close>, which no
  handler catches.
\<close>

theorem launch_failure_formatted_results_raises:
  assumes "get_actor_config E config_path = Inr config"
    and "getitem_key config ''actor_name'' = Inr actor_name"
    and "getitem_key config ''actor_input'' = Inr actor_input"
    and "call_actor E actor_name actor_input = Inl e" and "exn_cls e = ApifyApiError"
  shows "\<exists>tr self. LinkedinWebScraper_init E config_path psize = (tr, Inr self)
           \<and> actor_call self = PNone \<and> dataset_client self = None
           \<and> get_formatted_results E self tr
               = Some (tr, Inl (no_attribute PNone ''list_items''))"
  by (simp add: init_launch_failed[OF assms] no_dataset_client)

theorem launch_failure_formatted_results_raises_witness:
  "LinkedinWebScraper_init rate_limited_env ''linkedin_config.json'' 100
     = ([ActorCall (PStr ''curious_coder/linkedin-profile-scraper'')
           (PDict [(''urls'', PList []), (''cookie'', PStr ''li_at=abc'')]),
         Print ''Error while running actor: 429 Too Many Requests'',
         Print ''Detected possible rate limit or scraping block.''],
        Inr \<lparr>page_size = 100, actor_call = PNone, dataset_client = None\<rparr>)
   \<and> get_formatted_results rate_limited_env
        \<lparr>page_size = 100, actor_call = PNone, dataset_client = None\<rparr>
        [ActorCall (PStr ''curious_coder/linkedin-profile-scraper'')
           (PDict [(''urls'', PList []), (''cookie'', PStr ''li_at=abc'')]),
         Print ''Error while running actor: 429 Too Many Requests'',
         Print ''Detected possible rate limit or scraping block.'']
     = Some ([ActorCall (PStr ''curious_coder/linkedin-profile-scraper'')
                (PDict [(''urls'', PList []), (''cookie'', PStr ''li_at=abc'')]),
              Print ''Error while running actor: 429 Too Many Requests'',
              Print ''Detected possible rate limit or scraping block.''],
             Inl (no_attribute PNone ''list_items''))"
proof -
  let ?config = "PDict [(''actor_name'', PStr ''curious_coder/linkedin-profile-scraper''),
        (''actor_input'', PDict [(''urls'', PList []), (''cookie'', PStr ''li_at=abc'')])]"
  have a: "get_actor_config rate_limited_env ''linkedin_config.json'' = Inr ?config"
    by code_simp
  have b: "getitem_key ?config ''actor_name'' = Inr (PStr ''curious_coder/linkedin-profile-scraper'')"
    by code_simp
  have c: "getitem_key ?config ''actor_input''
             = Inr (PDict [(''urls'', PList []), (''cookie'', PStr ''li_at=abc'')])"
    by code_simp
  have d: "call_actor rate_limited_env (PStr ''curious_coder/linkedin-profile-scraper'')
             (PDict [(''urls'', PList []), (''cookie'', PStr ''li_at=abc'')])
           = Inl (Exn ApifyApiError ''429 Too Many Requests'')"
    by (simp add: rate_limited_env_def)
  have e: "exn_cls (Exn ApifyApiError ''429 Too Many Requests'') = ApifyApiError" by simp
  have i: "LinkedinWebScraper_init rate_limited_env ''linkedin_config.json'' 100
     = ([ActorCall (PStr ''curious_coder/linkedin-profile-scraper'')
           (PDict [(''urls'', PList []), (''cookie'', PStr ''li_at=abc'')]),
         Print ''Error while running actor: 429 Too Many Requests'',
         Print ''Detected possible rate limit or scraping block.''],
        Inr \<lparr>page_size = 100, actor_call = PNone, dataset_client = None\<rparr>)"
    by code_simp
  show ?thesis
    using launch_failure_formatted_results_raises[OF a b c d e, of 100] unfolding i by simp
qed

text \<open>
  C4. When the configuration cannot be loaded, the initializer logs the error and sets
  \<open>config = None\<close>; then \<open>config["actor_name"]\<close> raises \<open>TypeError\<close>, which the handler
  for \<open>ApifyApiError\<close> does not catch. No job is launched (the trace has the log record
  only), and the exception leaves the initializer: no scraper is built.
\<close>

theorem config_failure_raises_from_init:
  assumes "get_actor_config E config_path = Inl e"
  shows "LinkedinWebScraper_init E config_path psize =
     ([LogError (if exn_cls e = FileNotFoundError
                 then ''Configuration file '' @ config_path @ '' not found.''
                 else ''Error reading configuration file '' @ config_path @ '': '' @ exn_str e)],
      Inl (not_subscriptable PNone))"
  using assms by (simp add: LinkedinWebScraper_init_def getitem_key_def)

theorem config_failure_raises_from_init_witness:
  "LinkedinWebScraper_init no_config_env ''linkedin_config.json'' 100 =
     ([LogError ''Configuration file linkedin_config.json not found.''],
      Inl (not_subscriptable PNone))
   \<and> LinkedinWebScraper_init bad_config_env ''linkedin_config.json'' 100 =
     ([LogError (''Error reading configuration file linkedin_config.json: ''
                 @ ''Expecting value: line 1 column 1 (char 0)'')],
      Inl (not_subscriptable PNone))"
proof -
  have a: "get_actor_config no_config_env ''linkedin_config.json''
             = Inl (Exn FileNotFoundError
                      (''[Errno 2] No such file or directory: '' @ repr_str ''linkedin_config.json''))"
    by (simp add: get_actor_config_def no_config_env_def)
  have b: "get_actor_config bad_config_env ''linkedin_config.json''
             = Inl (Exn JSONDecodeError ''Expecting value: line 1 column 1 (char 0)'')"
    by (simp add: get_actor_config_def bad_config_env_def)
  show ?thesis
    using config_failure_raises_from_init[OF a, of 100] config_failure_raises_from_init[OF b, of 100]
    by simp
qed

section \<open>Failures of a GitHub lookup\<close>

lemma fetch_profile_http_error:
  assumes "requests_get E tr (BASE_URL @ ''/'' @ uname) = Inr r" "raise_for_status r = Some e"
  shows "fetch_profile E uname resp tr profiles =
     (tr @ [HttpGet (BASE_URL @ ''/'' @ uname),
            LogError (if status_code r = 404 then ''User '' @ uname @ '' not found''
                      else if status_code r = 403 then ''API rate limit exceeded''
                      else ''Error: '' @ exn_str e)],
      Inr (Some r, profiles))"
  using assms by (simp add: fetch_profile_def request_failed_def)

text \<open>The run of the specification's example: five identifiers, one of them unknown.\<close>

lemma five_identifiers_one_missing:
  "(case GitHubWebScraper_init github_env
           [''wincent'', ''jericho1050'', ''ghost'', ''dmalan'', ''torvalds''] 30 of
      (tr, Inl e) \<Rightarrow> []
    | (tr, Inr self) \<Rightarrow> map username (github_profiles self))
   = [PStr ''wincent'', PStr ''jericho1050'', PStr ''dmalan'', PStr ''torvalds'']"
  by code_simp

text \<open>
  C6. A lookup that fails with an HTTP error status is logged and skipped (the two lemmas
  above). A lookup that fails before any response exists is not: when \<open>requests.get\<close>
  raises for the first identifier, the handler reads the local variable \<open>response\<close>,
  which is unbound, and \<open>UnboundLocalError\<close> leaves \<open>fetch_profiles\<close>; the remaining
  identifiers are not processed.
\<close>

theorem first_lookup_without_response_raises:
  assumes "usernames self = uname # rest"
    and "requests_get E tr (BASE_URL @ ''/'' @ uname) = Inl e"
    and "exn_cls e = RequestException"
  shows "fetch_profiles E self tr =
     (tr @ [HttpGet (BASE_URL @ ''/'' @ uname)],
      Inl (Exn UnboundLocalError
             (''cannot access local variable '' @ [squote] @ ''response'' @ [squote]
              @ '' where it is not associated with a value'')))"
  using assms by (simp add: fetch_profiles_def fetch_profile_def request_failed_def)

theorem first_lookup_without_response_raises_witness:
  "fetch_profiles offline_env
     \<lparr>github_profiles = [],
      usernames = [''wincent'', ''jericho1050'', ''brianyu2'', ''dmalan'', ''torvalds''],
      gh_page_size = 30\<rparr> []
   = ([HttpGet ''https://api.github.com/users/wincent''],
      Inl (Exn UnboundLocalError
             (''cannot access local variable '' @ [squote] @ ''response'' @ [squote]
              @ '' where it is not associated with a value'')))"
proof -
  let ?self = "\<lparr>github_profiles = [],
      usernames = [''wincent'', ''jericho1050'', ''brianyu2'', ''dmalan'', ''torvalds''],
      gh_page_size = 30\<rparr>"
  have a: "usernames ?self = ''wincent'' # [''jericho1050'', ''brianyu2'', ''dmalan'', ''torvalds'']"
    by simp
  have b: "requests_get offline_env [] (BASE_URL @ ''/'' @ ''wincent'')
             = Inl (Exn RequestException ''Failed to establish a new connection'')"
    by (simp add: offline_env_def)
  have c: "exn_cls (Exn RequestException ''Failed to establish a new connection'') = RequestException"
    by simp
  show ?thesis
    using first_lookup_without_response_raises[OF a b c] by (simp add: BASE_URL_def)
qed

end
